theory Spec2Isabelle
  imports Main
begin

section \<open>JavaScript values\<close>

text \<open>
  \<^verbatim>\<open>runLinter\<close> is written against \<^verbatim>\<open>any\<close>: the parsed document, the rule
  selection, what a check returns and what it throws are arbitrary values. They are
  modelled as data: \<^verbatim>\<open>undefined\<close>, \<^verbatim>\<open>null\<close>, booleans, integral numbers, strings,
  arrays, plain objects (own properties in order, the first binding of a key counts) and
  \<^verbatim>\<open>Error\<close> instances (name and message). Fractions, \<^verbatim>\<open>NaN\<close>, infinities, symbols,
  functions as data, accessors and proxies are outside the model.
\<close>

datatype jsval =
    Undefined
  | Null
  | Bool bool
  | Num int
  | Str string
  | Arr "jsval list"
  | Obj "(string \<times> jsval) list"
  | Err string string

text \<open>What a call does once awaited: it returns (resolves with) a value or throws
  (rejects with) one.\<close>

datatype outcome = Returns jsval | Throws jsval

type_synonym check = "jsval \<Rightarrow> string \<Rightarrow> jsval \<Rightarrow> outcome"

text \<open>One invocation of a check: the key it was found under and its three arguments.\<close>

type_synonym call = "string \<times> jsval \<times> string \<times> jsval"

record run_result =
  diagnostics :: "jsval list"
  specTitle :: jsval

fun nullish :: "jsval \<Rightarrow> bool" where
  "nullish Undefined = True"
| "nullish Null = True"
| "nullish _ = False"

text \<open>\<^verbatim>\<open>!!v\<close>\<close>

fun truthy :: "jsval \<Rightarrow> bool" where
  "truthy Undefined = False"
| "truthy Null = False"
| "truthy (Bool b) = b"
| "truthy (Num n) = (n \<noteq> 0)"
| "truthy (Str s) = (s \<noteq> [])"
| "truthy _ = True"

text \<open>
  \<^verbatim>\<open>v.k\<close> on a value that is neither \<^verbatim>\<open>undefined\<close> nor \<^verbatim>\<open>null\<close>, for the names
  the linter reads (\<^verbatim>\<open>info\<close>, \<^verbatim>\<open>title\<close>, \<^verbatim>\<open>call\<close>, \<^verbatim>\<open>function\<close>, \<^verbatim>\<open>message\<close>):
  no prototype of a data value defines any of them, except that of errors for
  \<^verbatim>\<open>message\<close>.
\<close>

fun member :: "jsval \<Rightarrow> string \<Rightarrow> jsval" where
  "member (Obj kvs) k = (case map_of kvs k of Some v \<Rightarrow> v | None \<Rightarrow> Undefined)"
| "member (Err n m) k = (if k = ''message'' then Str m else if k = ''name'' then Str n else Undefined)"
| "member _ k = Undefined"

text \<open>\<^verbatim>\<open>v?.k\<close>\<close>

definition opt_member :: "jsval \<Rightarrow> string \<Rightarrow> jsval" where
  "opt_member v k = (if nullish v then Undefined else member v k)"

text \<open>\<^verbatim>\<open>Array.isArray(v)\<close>, and the elements of an array (none for any other value).\<close>

fun isArray :: "jsval \<Rightarrow> bool" where
  "isArray (Arr xs) = True"
| "isArray _ = False"

fun elements :: "jsval \<Rightarrow> jsval list" where
  "elements (Arr xs) = xs"
| "elements _ = []"

subsection \<open>Conversion to a string\<close>

text \<open>The \<^verbatim>\<open>TypeError\<close> of a failed conversion to a primitive (the text is V8's).\<close>

definition type_error :: jsval where
  "type_error = Err ''TypeError'' ''Cannot convert object to primitive value''"

definition digit_char :: "nat \<Rightarrow> char" where
  "digit_char d = char_of (48 + d)"

fun digits :: "nat \<Rightarrow> string" where
  "digits n = (if n < 10 then [digit_char n] else digits (n div 10) @ [digit_char (n mod 10)])"

definition num_str :: "int \<Rightarrow> string" where
  "num_str n = (if n < 0 then CHR ''-'' # digits (nat (- n)) else digits (nat n))"

text \<open>
  \<^verbatim>\<open>ToString\<close>, which a template literal, \<^verbatim>\<open>String(v)\<close>, \<^verbatim>\<open>'..' + v\<close> and an index
  \<^verbatim>\<open>functionsMap[v]\<close> all apply to a value of this model with the same result. A plain
  object is converted by its \<^verbatim>\<open>toString\<close>, then its \<^verbatim>\<open>valueOf\<close>: an own property
  \<^verbatim>\<open>toString\<close> is data here, hence not callable, and the inherited \<^verbatim>\<open>valueOf\<close> returns
  the object itself, so the conversion throws; without that own property the inherited
  \<^verbatim>\<open>toString\<close> answers. An array joins its elements with commas, \<^verbatim>\<open>undefined\<close> and
  \<^verbatim>\<open>null\<close> elements as the empty string. \<open>Inl\<close> is the value thrown.
\<close>

fun to_str :: "jsval \<Rightarrow> jsval + string"
  and join_str :: "jsval list \<Rightarrow> jsval + string" where
  "to_str Undefined = Inr ''undefined''"
| "to_str Null = Inr ''null''"
| "to_str (Bool b) = Inr (if b then ''true'' else ''false'')"
| "to_str (Num n) = Inr (num_str n)"
| "to_str (Str s) = Inr s"
| "to_str (Arr xs) = join_str xs"
| "to_str (Obj kvs) =
     (if ''toString'' \<in> set (map fst kvs) then Inl type_error else Inr ''[object Object]'')"
| "to_str (Err n m) = Inr (if n = [] then m else if m = [] then n else n @ '': '' @ m)"
| "join_str [] = Inr []"
| "join_str [x] = (if nullish x then Inr [] else to_str x)"
| "join_str (x # y # ys) =
     (case (if nullish x then Inr [] else to_str x) of
        Inl e \<Rightarrow> Inl e
      | Inr s \<Rightarrow> (case join_str (y # ys) of Inl e \<Rightarrow> Inl e | Inr t \<Rightarrow> Inr (s @ '','' @ t)))"

section \<open>The rule registry\<close>

text \<open>The keys of the object literal \<^verbatim>\<open>functionsMap\<close>, in source order.\<close>

definition rule_names :: "string list" where
  "rule_names =
     [''checkHttpsServers'', ''checkParamElementPresence'', ''checkElementSensitiveData'',
      ''checkAllowedMethods'', ''checkOASSpec'', ''checkOASVersion'', ''checkCRUD'',
      ''checkSuccessResponse'', ''checkGetIdempotency'', ''checkGetReturnObject'',
      ''checkParamElementAbsence'', ''checkRequestEncapsulation'',
      ''checkResponseEncapsulation'', ''checkCompatibility'']"

definition to_object_error :: jsval where
  "to_object_error = Err ''TypeError'' ''Cannot convert undefined or null to object''"

fun isObject :: "jsval \<Rightarrow> bool" where
  "isObject (Arr xs) = True"
| "isObject (Obj kvs) = True"
| "isObject (Err n m) = True"
| "isObject _ = False"

text \<open>
  \<^verbatim>\<open>functionsMap\<close> is an ordinary object, so an index that is not one of its own keys
  is answered by \<^verbatim>\<open>Object.prototype\<close>. These are its function-valued members, each as
  it behaves when called the way \<^verbatim>\<open>runLinter\<close> calls a check: as a plain function
  (\<^verbatim>\<open>this\<close> is \<^verbatim>\<open>undefined\<close> in module code) on the document, the text and the rule.
  \<^verbatim>\<open>Object(v)\<close> returns an object \<^verbatim>\<open>v\<close> itself and a fresh object otherwise (written
  \<open>Obj []\<close> also for the wrapper of a primitive: the caller only asks whether the
  result is an array). \<^verbatim>\<open>__proto__\<close> is inherited too, but is not a function. The
  members that need an object for \<^verbatim>\<open>this\<close> throw a \<^verbatim>\<open>TypeError\<close>, whose text differs
  between members and engines; one text stands for all of them.
\<close>

definition object_prototype :: "string \<Rightarrow> check option" where
  "object_prototype k =
     (if k = ''constructor'' then
        Some (\<lambda>spec content rule. Returns (if isObject spec then spec else Obj []))
      else if k = ''toString'' then
        Some (\<lambda>spec content rule. Returns (Str ''[object Undefined]''))
      else if k = ''isPrototypeOf'' then
        Some (\<lambda>spec content rule.
          if isObject spec then Throws to_object_error else Returns (Bool False))
      else if k \<in> set [''hasOwnProperty'', ''propertyIsEnumerable''] then
        Some (\<lambda>spec content rule.
          case to_str spec of Inl e \<Rightarrow> Throws e | Inr p \<Rightarrow> Throws to_object_error)
      else if k \<in> set [''toLocaleString'', ''valueOf'', ''__defineGetter__'',
                        ''__defineSetter__'', ''__lookupGetter__'', ''__lookupSetter__''] then
        Some (\<lambda>spec content rule. Throws to_object_error)
      else None)"

text \<open>
  \<^verbatim>\<open>functionsMap[k]\<close> where it is a function, \<open>None\<close> where
  \<^verbatim>\<open>typeof functionsMap[k] === 'function'\<close> is false. The fourteen checks are imported
  from modules of their own; \<open>imports\<close> stands for them.
\<close>

definition functionsMap :: "(string \<Rightarrow> check) \<Rightarrow> string \<Rightarrow> check option" where
  "functionsMap imports k =
     (if k \<in> set rule_names then Some (imports k) else object_prototype k)"

section \<open>The linter\<close>

text \<open>A diagnostic the engine makes itself: it spans the whole text.\<close>

definition full_span :: "string \<Rightarrow> string \<Rightarrow> jsval \<Rightarrow> jsval" where
  "full_span content msg src =
     Obj [(''from'', Num 0), (''to'', Num (int (length content))),
          (''severity'', Str ''error''), (''message'', Str msg), (''source'', src)]"

text \<open>
  The callback of \<^verbatim>\<open>selectedRules.filter\<close>:
  \<^verbatim>\<open>!!rule?.call?.function && typeof functionsMap[rule.call.function] === 'function'\<close>.
  Indexing converts the identifier to a property key, which can throw.
\<close>

definition runnable_rule :: "(string \<Rightarrow> check) \<Rightarrow> jsval \<Rightarrow> jsval + bool" where
  "runnable_rule imports rule =
     (if truthy (opt_member (opt_member rule ''call'') ''function'') then
        (case to_str (member (member rule ''call'') ''function'') of
           Inl e \<Rightarrow> Inl e
         | Inr k \<Rightarrow> Inr (case functionsMap imports k of None \<Rightarrow> False | Some f \<Rightarrow> True))
      else Inr False)"

text \<open>\<^verbatim>\<open>filter\<close> visits the rules in order and stops at the first callback that throws.\<close>

fun runnable :: "(string \<Rightarrow> check) \<Rightarrow> jsval list \<Rightarrow> jsval + jsval list" where
  "runnable imports [] = Inr []"
| "runnable imports (rule # rules) =
     (case runnable_rule imports rule of
        Inl e \<Rightarrow> Inl e
      | Inr b \<Rightarrow>
          (case runnable imports rules of
             Inl e \<Rightarrow> Inl e
           | Inr rs \<Rightarrow> Inr (if b then rule # rs else rs)))"

text \<open>\<^verbatim>\<open>err?.message || String(err)\<close>, then its place in the template literal.\<close>

definition failure_text :: "jsval \<Rightarrow> jsval + string" where
  "failure_text err =
     (if truthy (opt_member err ''message'') then to_str (opt_member err ''message'')
      else to_str err)"

definition dquote :: char where
  "dquote = CHR 0x22"

text \<open>
  The \<^verbatim>\<open>catch\<close> around one check: one full-span diagnostic whose source is the
  identifier as the rule gives it. Converting either part of the message can throw.
\<close>

definition rule_failed :: "string \<Rightarrow> jsval \<Rightarrow> jsval \<Rightarrow> jsval + jsval list" where
  "rule_failed content funcName err =
     (case to_str funcName of
        Inl e \<Rightarrow> Inl e
      | Inr name \<Rightarrow>
          (case failure_text err of
             Inl e \<Rightarrow> Inl e
           | Inr txt \<Rightarrow>
               Inr [full_span content
                      (''Rule '' @ [dquote] @ name @ [dquote] @ '' execution failed: '' @ txt)
                      funcName]))"

text \<open>
  The asynchronous arrow function mapped over the runnable rules: the calls it makes and
  what its promise settles to (\<open>Inl\<close>: rejected). The two lookups before the \<^verbatim>\<open>try\<close>
  are not protected by it; calling something that is not a function throws inside it.
\<close>

definition runRule ::
  "(string \<Rightarrow> check) \<Rightarrow> jsval \<Rightarrow> string \<Rightarrow> jsval \<Rightarrow> call list \<times> (jsval + jsval list)" where
  "runRule imports spec content rule =
     (let funcName = member (member rule ''call'') ''function'' in
      case to_str funcName of
        Inl e \<Rightarrow> ([], Inl e)
      | Inr k \<Rightarrow>
          (case functionsMap imports k of
             None \<Rightarrow>
               ([], rule_failed content funcName (Err ''TypeError'' ''ruleFunc is not a function''))
           | Some ruleFunc \<Rightarrow>
               ([(k, spec, content, rule)],
                case ruleFunc spec content rule of
                  Returns out \<Rightarrow> Inr (if isArray out then elements out else [])
                | Throws err \<Rightarrow> rule_failed content funcName err)))"

text \<open>
  \<^verbatim>\<open>Promise.all\<close>: the list of results if every promise is fulfilled, a rejection
  otherwise (the first in list order; all rejections of \<open>runRule\<close> carry the same error).
\<close>

fun promise_all :: "(jsval + 'a) list \<Rightarrow> jsval + 'a list" where
  "promise_all [] = Inr []"
| "promise_all (p # ps) =
     (case p of
        Inl e \<Rightarrow> Inl e
      | Inr x \<Rightarrow> (case promise_all ps of Inl e \<Rightarrow> Inl e | Inr xs \<Rightarrow> Inr (x # xs)))"

text \<open>
  The outer \<^verbatim>\<open>catch\<close>: \<^verbatim>\<open>diagnostics\<close> is still empty when it runs, and
  \<^verbatim>\<open>specTitle\<close> holds whatever was assigned before the throw. Reading \<^verbatim>\<open>message\<close> off
  \<^verbatim>\<open>undefined\<close> or \<^verbatim>\<open>null\<close> throws, and so can the concatenation: then the promise of
  \<^verbatim>\<open>runLinter\<close> is rejected (\<open>Inl\<close>).
\<close>

definition parsing_error :: "string \<Rightarrow> jsval \<Rightarrow> jsval \<Rightarrow> jsval + run_result" where
  "parsing_error content title error =
     (if nullish error then
        Inl (Err ''TypeError'' ''Cannot read properties of undefined'')
      else
        (case to_str (member error ''message'') of
           Inl e \<Rightarrow> Inl e
         | Inr msg \<Rightarrow>
             Inr \<lparr>diagnostics =
                    [full_span content (''Specification parsing error: '' @ msg) (Str ''parser'')],
                  specTitle = title\<rparr>))"

text \<open>
  \<^verbatim>\<open>runLinter(content, selectedRules)\<close>. \<^verbatim>\<open>yaml.load\<close> belongs to the js-yaml library
  and is a parameter: it returns the document, or throws a \<^verbatim>\<open>YAMLException\<close> (\<open>Inl\<close>
  its message). The result is what the promise settles to, together with the calls to
  checks made on the way, in the order they were issued.
\<close>

definition runLinter ::
  "(string \<Rightarrow> string + jsval) \<Rightarrow> (string \<Rightarrow> check) \<Rightarrow> string \<Rightarrow> jsval
     \<Rightarrow> (jsval + run_result) \<times> call list" where
  "runLinter yaml_load imports content selectedRules =
     (case yaml_load content of
        Inl msg \<Rightarrow> (parsing_error content Undefined (Err ''YAMLException'' msg), [])
      | Inr spec \<Rightarrow>
          (let title = opt_member (opt_member spec ''info'') ''title'' in
           if \<not> isArray selectedRules \<or> length (elements selectedRules) = 0 then
             (Inr \<lparr>diagnostics = [], specTitle = title\<rparr>, [])
           else
             (case runnable imports (elements selectedRules) of
                Inl e \<Rightarrow> (parsing_error content title e, [])
              | Inr rs \<Rightarrow>
                  (let runs = map (runRule imports spec content) rs in
                   (case promise_all (map snd runs) of
                      Inl e \<Rightarrow> parsing_error content title e
                    | Inr results \<Rightarrow> Inr \<lparr>diagnostics = concat results, specTitle = title\<rparr>,
                    concat (map fst runs))))))"

section \<open>A sample environment\<close>

text \<open>
  Concrete stand-ins for the two things \<^verbatim>\<open>runLinter\<close> takes from elsewhere, used to
  evaluate it: the answers of \<^verbatim>\<open>yaml.load\<close> on a few texts (an unclosed flow sequence
  is rejected, the empty text loads as \<^verbatim>\<open>undefined\<close>), and checks that show each kind
  of behaviour: one returns a finding, one throws an \<^verbatim>\<open>Error\<close>, one returns something
  that is not an array, one throws an object that cannot be converted to a string, one
  returns a finding whose end precedes its start. Any text not listed is answered as if
  it were a plain scalar, which is right only for texts that are one; no statement below
  rests on that branch.
\<close>

definition sample_load :: "string \<Rightarrow> string + jsval" where
  "sample_load content =
     (if content = ''a: [1'' then Inl ''unexpected end of the stream within a flow collection''
      else if content = [] then Inr Undefined
      else if content = ''info: {title: 42}'' then Inr (Obj [(''info'', Obj [(''title'', Num 42)])])
      else if content = ''info: {title: Pets}'' then
        Inr (Obj [(''info'', Obj [(''title'', Str ''Pets'')])])
      else Inr (Str content))"

definition finding :: "int \<Rightarrow> int \<Rightarrow> string \<Rightarrow> jsval" where
  "finding a b src =
     Obj [(''from'', Num a), (''to'', Num b), (''severity'', Str ''warning''),
          (''message'', Str ''finding''), (''source'', Str src)]"

definition sample_checks :: "string \<Rightarrow> check" where
  "sample_checks k =
     (if k = ''checkHttpsServers'' then (\<lambda>spec content rule. Returns (Arr [finding 0 4 k]))
      else if k = ''checkCRUD'' then (\<lambda>spec content rule. Throws (Err ''Error'' ''boom''))
      else if k = ''checkOASVersion'' then (\<lambda>spec content rule. Returns (Str ''ok''))
      else if k = ''checkOASSpec'' then (\<lambda>spec content rule. Throws (Obj [(''toString'', Num 1)]))
      else if k = ''checkAllowedMethods'' then (\<lambda>spec content rule. Returns (Arr [finding 5 3 k]))
      else (\<lambda>spec content rule. Returns (Arr [])))"

text \<open>The rule descriptor \<^verbatim>\<open>{call: {function: f}}\<close>.\<close>

definition rule_for :: "jsval \<Rightarrow> jsval" where
  "rule_for f = Obj [(''call'', Obj [(''function'', f)])]"

section \<open>Offsets within the text\<close>

text \<open>
  The bound the specification sets on a diagnostic: \<^verbatim>\<open>from\<close> and \<^verbatim>\<open>to\<close> are numbers
  with \<open>0 \<le> from \<le> to \<le> length content\<close>.
\<close>

definition offsets_ok :: "string \<Rightarrow> jsval \<Rightarrow> bool" where
  "offsets_ok content d =
     (case (member d ''from'', member d ''to'') of
        (Num a, Num b) \<Rightarrow> 0 \<le> a \<and> a \<le> b \<and> b \<le> int (length content)
      | _ \<Rightarrow> False)"

section \<open>What can be thrown inside the engine\<close>

text \<open>Every failure the engine raises by itself is the failed conversion of an object.\<close>

lemma to_str_throws: "to_str v = Inl e \<Longrightarrow> e = type_error"
  and join_str_throws: "join_str vs = Inl e \<Longrightarrow> e = type_error"
  by (induction v and vs rule: to_str_join_str.induct)
     (auto split: if_splits sum.splits)

lemma runnable_rule_throws: "runnable_rule imports rule = Inl e \<Longrightarrow> e = type_error"
  by (auto simp: runnable_rule_def split: if_splits sum.splits dest: to_str_throws)

lemma runnable_throws: "runnable imports rules = Inl e \<Longrightarrow> e = type_error"
  by (induction rules) (auto split: sum.splits dest: runnable_rule_throws)

lemma rule_failed_throws: "rule_failed content f err = Inl e \<Longrightarrow> e = type_error"
  by (auto simp: rule_failed_def failure_text_def split: if_splits sum.splits dest: to_str_throws)

lemma runRule_throws: "snd (runRule imports spec content rule) = Inl e \<Longrightarrow> e = type_error"
  by (auto simp: runRule_def Let_def
      split: if_splits sum.splits option.splits outcome.splits
      dest: to_str_throws rule_failed_throws)

lemma promise_all_throws: "promise_all ps = Inl e \<Longrightarrow> Inl e \<in> set ps"
  by (induction ps) (auto split: sum.splits)

lemma promise_all_fulfilled: "promise_all ps = Inr xs \<Longrightarrow> ps = map Inr xs"
  by (induction ps arbitrary: xs) (auto split: sum.splits)

lemma parsing_error_Err:
  "parsing_error content title (Err n m) =
     Inr \<lparr>diagnostics =
            [full_span content (''Specification parsing error: '' @ m) (Str ''parser'')],
          specTitle = title\<rparr>"
  by (simp add: parsing_error_def)


section \<open>Totality\<close>



section \<open>Parse failure\<close>

text \<open>
  C2. When \<^verbatim>\<open>yaml.load\<close> fails on the text, the result holds exactly one diagnostic:
  from 0 to the length of the text, severity error, source \<^verbatim>\<open>parser\<close>, the message
  ending in the parser's failure text. No title is set and no check is called.
\<close>

theorem parse_failure_short_circuit:
  assumes "yaml_load content = Inl msg"
  shows "runLinter yaml_load imports content selectedRules =
           (Inr \<lparr>diagnostics =
                   [Obj [(''from'', Num 0), (''to'', Num (int (length content))),
                         (''severity'', Str ''error''),
                         (''message'', Str (''Specification parsing error: '' @ msg)),
                         (''source'', Str ''parser'')]],
                 specTitle = Undefined\<rparr>, [])"
  using assms by (simp add: runLinter_def parsing_error_Err full_span_def)

theorem parse_failure_short_circuit_witness:
  "sample_load ''a: [1'' = Inl ''unexpected end of the stream within a flow collection'' \<and>
   runLinter sample_load sample_checks ''a: [1'' (Arr [rule_for (Str ''checkCRUD'')]) =
     (Inr \<lparr>diagnostics =
             [Obj [(''from'', Num 0), (''to'', Num 5), (''severity'', Str ''error''),
                   (''message'', Str ''Specification parsing error: unexpected end of the stream within a flow collection''),
                   (''source'', Str ''parser'')]],
           specTitle = Undefined\<rparr>, [])"
proof -
  have h: "sample_load ''a: [1'' = Inl ''unexpected end of the stream within a flow collection''"
    by (simp add: sample_load_def)
  show ?thesis
    using h parse_failure_short_circuit
        [of sample_load "''a: [1''" "''unexpected end of the stream within a flow collection''"
            sample_checks "Arr [rule_for (Str ''checkCRUD'')]"]
    by simp
qed

section \<open>Runs that reach the flattening\<close>




lemma settled_per_rule:
  assumes "promise_all (map (\<lambda>rule. snd (runRule imports spec content rule)) rs) = Inr dss"
  shows "length dss = length rs"
    and "n < length rs \<Longrightarrow> snd (runRule imports spec content (rs ! n)) = Inr (dss ! n)"
proof -
  have eq: "map (\<lambda>rule. snd (runRule imports spec content rule)) rs = map Inr dss"
    using assms by (rule promise_all_fulfilled)
  then show len: "length dss = length rs" by (metis length_map)
  assume "n < length rs"
  then have "map (\<lambda>rule. snd (runRule imports spec content rule)) rs ! n = map Inr dss ! n"
    using eq by simp
  with \<open>n < length rs\<close> len show "snd (runRule imports spec content (rs ! n)) = Inr (dss ! n)"
    by simp
qed


section \<open>Failure isolation\<close>




section \<open>Order of the diagnostics\<close>





section \<open>Rules that do not resolve\<close>

text \<open>
  The filter's test is passed by the fourteen registered names and, through the
  prototype of \<^verbatim>\<open>functionsMap\<close>, by names such as \<^verbatim>\<open>constructor\<close>.
\<close>

lemma inherited_member_resolves:
  "runnable_rule imports (rule_for (Str ''constructor'')) = Inr True"
  by (simp add: runnable_rule_def rule_for_def opt_member_def functionsMap_def rule_names_def
      object_prototype_def)




section \<open>Documents that are not mappings\<close>




section \<open>Offsets of the diagnostics returned\<close>

lemma full_span_offsets_ok: "offsets_ok content (full_span content msg src)"
  by (simp add: offsets_ok_def full_span_def)

lemma parsing_error_offsets_ok:
  "parsing_error content title e = Inr r \<Longrightarrow> d \<in> set (diagnostics r) \<Longrightarrow> offsets_ok content d"
  by (auto simp: parsing_error_def full_span_offsets_ok split: if_splits sum.splits)

lemma rule_failed_offsets_ok:
  "rule_failed content f err = Inr ds \<Longrightarrow> d \<in> set ds \<Longrightarrow> offsets_ok content d"
  by (auto simp: rule_failed_def full_span_offsets_ok split: sum.splits)

lemma runRule_origin:
  assumes "runRule imports spec content rule = (cs, Inr ds)" and "d \<in> set ds"
  shows "offsets_ok content d \<or>
         (\<exists>k f out. cs = [(k, spec, content, rule)] \<and> functionsMap imports k = Some f \<and>
                     f spec content rule = Returns (Arr out) \<and> d \<in> set out)"
proof (cases "to_str (member (member rule ''call'') ''function'')")
  case (Inl e)
  with assms show ?thesis by (simp add: runRule_def)
next
  case (Inr k)
  show ?thesis
  proof (cases "functionsMap imports k")
    case None
    with Inr assms show ?thesis
      by (auto simp: runRule_def dest: rule_failed_offsets_ok)
  next
    case (Some f)
    show ?thesis
    proof (cases "f spec content rule")
      case (Returns out)
      with Inr Some assms show ?thesis
        by (cases out) (auto simp: runRule_def split: if_splits)
    next
      case (Throws err)
      with Inr Some assms show ?thesis
        by (auto simp: runRule_def dest: rule_failed_offsets_ok)
    qed
  qed
qed

text \<open>
  C6 (amended). Every diagnostic the engine makes itself runs from 0 to the length of
  the text. What a check returns is handed on unchanged and unexamined; so every
  diagnostic of a result lies within the text provided those returned by the checks
  called in that run do.
\<close>

theorem offset_validity:
  assumes run: "runLinter yaml_load imports content selectedRules = (Inr r, calls)"
    and checks: "\<forall>(k, spec, text, rule) \<in> set calls. \<forall>f out.
                   functionsMap imports k = Some f \<longrightarrow> f spec text rule = Returns (Arr out) \<longrightarrow>
                   (\<forall>d \<in> set out. offsets_ok content d)"
  shows "\<forall>d \<in> set (diagnostics r). offsets_ok content d"
proof (cases "yaml_load content")
  case (Inl msg)
  with run show ?thesis
    by (auto simp: runLinter_def dest: parsing_error_offsets_ok)
next
  case (Inr spec)
  show ?thesis
  proof (cases "\<not> isArray selectedRules \<or> length (elements selectedRules) = 0")
    case True
    with Inr run show ?thesis by (auto simp add: runLinter_def)
  next
    case False
    show ?thesis
    proof (cases "runnable imports (elements selectedRules)")
      case (Inl e)
      with Inr False run show ?thesis
        by (auto simp: runLinter_def dest: parsing_error_offsets_ok)
    next
      case rs: (Inr rs)
      have calls: "calls = concat (map (\<lambda>rule. fst (runRule imports spec content rule)) rs)"
        using run Inr False rs by (auto simp: runLinter_def Let_def comp_def)
      show ?thesis
      proof (cases "promise_all (map (\<lambda>rule. snd (runRule imports spec content rule)) rs)")
        case (Inl e)
        with rs Inr False run show ?thesis
          by (auto simp: runLinter_def Let_def comp_def dest: parsing_error_offsets_ok)
      next
        case dss: (Inr dss)
        have r: "diagnostics r = concat dss"
          using run Inr False rs dss by (auto simp: runLinter_def Let_def comp_def)
        have len: "length dss = length rs"
          using dss by (rule settled_per_rule(1))
        show ?thesis
        proof
          fix d assume "d \<in> set (diagnostics r)"
          with r obtain ds where "ds \<in> set dss" and d: "d \<in> set ds" by auto
          then obtain n where n: "n < length dss" and ds: "ds = dss ! n"
            by (auto simp: in_set_conv_nth)
          from n len have n': "n < length rs" by simp
          have "snd (runRule imports spec content (rs ! n)) = Inr (dss ! n)"
            using dss n' by (rule settled_per_rule(2))
          then have "runRule imports spec content (rs ! n) =
                       (fst (runRule imports spec content (rs ! n)), Inr ds)"
            using ds by (simp add: prod_eq_iff)
          from runRule_origin [OF this d]
          show "offsets_ok content d"
          proof
            assume "offsets_ok content d" then show ?thesis .
          next
            assume "\<exists>k f out. fst (runRule imports spec content (rs ! n)) = [(k, spec, content, rs ! n)] \<and>
                      functionsMap imports k = Some f \<and>
                      f spec content (rs ! n) = Returns (Arr out) \<and> d \<in> set out"
            then obtain k f out
              where c: "fst (runRule imports spec content (rs ! n)) = [(k, spec, content, rs ! n)]"
                and f: "functionsMap imports k = Some f"
                and out: "f spec content (rs ! n) = Returns (Arr out)" and dout: "d \<in> set out"
              by blast
            have "rs ! n \<in> set rs" using n' by simp
            with c calls have "(k, spec, content, rs ! n) \<in> set calls"
              by force
            with checks f out dout show ?thesis by blast
          qed
        qed
      qed
    qed
  qed
qed

theorem offset_validity_witness:
  "runLinter sample_load sample_checks ''info: {title: Pets}''
       (Arr [rule_for (Str ''checkHttpsServers''), rule_for (Str ''checkCRUD'')]) =
     (Inr \<lparr>diagnostics =
             [finding 0 4 ''checkHttpsServers'',
              Obj [(''from'', Num 0), (''to'', Num 19), (''severity'', Str ''error''),
                   (''message'', Str (''Rule '' @ [dquote] @ ''checkCRUD'' @ [dquote] @
                                       '' execution failed: boom'')),
                   (''source'', Str ''checkCRUD'')]],
           specTitle = Str ''Pets''\<rparr>,
      [(''checkHttpsServers'', Obj [(''info'', Obj [(''title'', Str ''Pets'')])],
        ''info: {title: Pets}'', rule_for (Str ''checkHttpsServers'')),
       (''checkCRUD'', Obj [(''info'', Obj [(''title'', Str ''Pets'')])],
        ''info: {title: Pets}'', rule_for (Str ''checkCRUD''))]) \<and>
   offsets_ok ''info: {title: Pets}'' (finding 0 4 ''checkHttpsServers'') \<and>
   offsets_ok ''info: {title: Pets}''
     (Obj [(''from'', Num 0), (''to'', Num 19), (''severity'', Str ''error''),
           (''message'', Str (''Rule '' @ [dquote] @ ''checkCRUD'' @ [dquote] @
                               '' execution failed: boom'')),
           (''source'', Str ''checkCRUD'')])"
proof -
  let ?text = "''info: {title: Pets}''"
  let ?doc = "Obj [(''info'', Obj [(''title'', Str ''Pets'')])]"
  let ?r = "\<lparr>diagnostics =
             [finding 0 4 ''checkHttpsServers'',
              Obj [(''from'', Num 0), (''to'', Num 19), (''severity'', Str ''error''),
                   (''message'', Str (''Rule '' @ [dquote] @ ''checkCRUD'' @ [dquote] @
                                       '' execution failed: boom'')),
                   (''source'', Str ''checkCRUD'')]],
           specTitle = Str ''Pets''\<rparr>"
  let ?calls = "[(''checkHttpsServers'', ?doc, ?text, rule_for (Str ''checkHttpsServers'')),
                 (''checkCRUD'', ?doc, ?text, rule_for (Str ''checkCRUD''))]"
  have run: "runLinter sample_load sample_checks ?text
               (Arr [rule_for (Str ''checkHttpsServers''), rule_for (Str ''checkCRUD'')]) =
             (Inr ?r, ?calls)"
    by code_simp
  have ok: "offsets_ok ?text (finding 0 4 ''checkHttpsServers'')"
    by code_simp
  have checks: "\<forall>(k, spec, text, rule) \<in> set ?calls. \<forall>f out.
                   functionsMap sample_checks k = Some f \<longrightarrow> f spec text rule = Returns (Arr out) \<longrightarrow>
                   (\<forall>d \<in> set out. offsets_ok ?text d)"
    using ok by (auto simp: functionsMap_def rule_names_def sample_checks_def)
  from offset_validity [OF run checks]
  have "\<forall>d \<in> set (diagnostics ?r). offsets_ok ?text d" .
  then show ?thesis
    using run by simp
qed

text \<open>
  As stated the claim fails for what a check returns: the check behind
  \<^verbatim>\<open>checkAllowedMethods\<close> returns a finding from 5 to 3, and the result carries it.
\<close>

theorem offset_validity_counterexample:
  "runLinter sample_load sample_checks ''info: {title: Pets}''
       (Arr [rule_for (Str ''checkAllowedMethods'')]) =
     (Inr \<lparr>diagnostics = [finding 5 3 ''checkAllowedMethods''], specTitle = Str ''Pets''\<rparr>,
      [(''checkAllowedMethods'', Obj [(''info'', Obj [(''title'', Str ''Pets'')])],
        ''info: {title: Pets}'', rule_for (Str ''checkAllowedMethods''))]) \<and>
   \<not> offsets_ok ''info: {title: Pets}'' (finding 5 3 ''checkAllowedMethods'')"
  by code_simp

section \<open>The title\<close>

lemma parsing_error_title:
  "parsing_error content title e = Inr r \<Longrightarrow> specTitle r = title"
  by (auto simp: parsing_error_def split: if_splits sum.splits)

text \<open>
  C7. The title is read as \<^verbatim>\<open>spec?.info?.title\<close> and returned as it is, whatever
  the run does afterwards; nothing asks whether it is a string. For the document
  \<^verbatim>\<open>info: {title: 42}\<close> the result's title is the number 42, although the function
  declares \<^verbatim>\<open>specTitle?: string\<close>.
\<close>

theorem title_not_checked:
  assumes parse: "yaml_load content = Inr spec"
  shows "\<exists>r. fst (runLinter yaml_load imports content selectedRules) = Inr r \<and>
             specTitle r = opt_member (opt_member spec ''info'') ''title''"
proof -
  define title where "title = opt_member (opt_member spec ''info'') ''title''"
  have thrown: "\<exists>r. parsing_error content title e = Inr r \<and> specTitle r = title"
    if "e = type_error" for e
    using that by (simp add: type_error_def parsing_error_Err)
  show ?thesis
  proof (cases "\<not> isArray selectedRules \<or> length (elements selectedRules) = 0")
    case True
    with parse show ?thesis by (auto simp add: runLinter_def)
  next
    case False
    show ?thesis
    proof (cases "runnable imports (elements selectedRules)")
      case (Inl e)
      then have "e = type_error" by (rule runnable_throws)
      with Inl parse False show ?thesis
        using thrown [of e] by (auto simp add: runLinter_def title_def)
    next
      case rs: (Inr rs)
      show ?thesis
      proof (cases "promise_all (map snd (map (runRule imports spec content) rs))")
        case (Inl e)
        then have "Inl e \<in> set (map snd (map (runRule imports spec content) rs))"
          by (rule promise_all_throws)
        then have "e = type_error" by (auto dest: runRule_throws [OF sym])
        with Inl rs parse False show ?thesis
          using thrown [of e] by (auto simp add: runLinter_def title_def Let_def)
      next
        case (Inr results)
        with rs parse False show ?thesis
          by (auto simp add: runLinter_def Let_def)
      qed
    qed
  qed
qed

theorem title_not_checked_witness:
  "sample_load ''info: {title: 42}'' = Inr (Obj [(''info'', Obj [(''title'', Num 42)])]) \<and>
   (\<exists>r. fst (runLinter sample_load sample_checks ''info: {title: 42}'' (Arr [])) = Inr r \<and>
        specTitle r = Num 42)"
proof -
  let ?doc = "Obj [(''info'', Obj [(''title'', Num 42)])]"
  have parse: "sample_load ''info: {title: 42}'' = Inr ?doc"
    by code_simp
  have "opt_member (opt_member ?doc ''info'') ''title'' = Num 42"
    by code_simp
  with title_not_checked [of sample_load "''info: {title: 42}''" ?doc sample_checks "Arr []", OF parse]
  show ?thesis
    using parse by simp
qed

section \<open>A check that returns no array\<close>

text \<open>
  C8. When the check of a resolved rule returns a value that is not an array, the rule's
  promise is fulfilled with the empty sequence: the rule was called, it contributes no
  diagnostic, and no error is made of it.
\<close>

theorem non_sequence_coerced:
  assumes key: "to_str (member (member rule ''call'') ''function'') = Inr k"
    and fn: "functionsMap imports k = Some f"
    and ret: "f spec content rule = Returns out"
    and shape: "\<not> isArray out"
  shows "runRule imports spec content rule = ([(k, spec, content, rule)], Inr [])"
  using assms by (simp add: runRule_def)

theorem non_sequence_coerced_witness:
  "to_str (member (member (rule_for (Str ''checkOASVersion'')) ''call'') ''function'') =
     Inr ''checkOASVersion'' \<and>
   functionsMap sample_checks ''checkOASVersion'' = Some (sample_checks ''checkOASVersion'') \<and>
   sample_checks ''checkOASVersion'' Undefined [] (rule_for (Str ''checkOASVersion'')) =
     Returns (Str ''ok'') \<and>
   \<not> isArray (Str ''ok'') \<and>
   runRule sample_checks Undefined [] (rule_for (Str ''checkOASVersion'')) =
     ([(''checkOASVersion'', Undefined, [], rule_for (Str ''checkOASVersion''))], Inr [])"
proof -
  let ?rule = "rule_for (Str ''checkOASVersion'')"
  have key: "to_str (member (member ?rule ''call'') ''function'') = Inr ''checkOASVersion''"
    by code_simp
  have fn: "functionsMap sample_checks ''checkOASVersion'' = Some (sample_checks ''checkOASVersion'')"
    by (simp add: functionsMap_def rule_names_def)
  have ret: "sample_checks ''checkOASVersion'' Undefined [] ?rule = Returns (Str ''ok'')"
    by (simp add: sample_checks_def)
  have shape: "\<not> isArray (Str ''ok'')"
    by simp
  from non_sequence_coerced
    [of ?rule "''checkOASVersion''" sample_checks "sample_checks ''checkOASVersion''"
        Undefined "[]" "Str ''ok''", OF key fn ret shape]
  show ?thesis
    using key fn ret shape by simp
qed

end
